theory Spec2Isabelle
  imports Complex_Main
begin

section \<open>The stepper-motor controller of rumble.py\<close>

text \<open>
  A shallow embedding of the class \<open>Motor\<close> of \<^verbatim>\<open>src/rumble.py\<close>. The object's
  attributes are a record; the LabJack connection behind \<open>handle\<close> is a second record,
  shared by every motor on the device, so a method is a function from the pair of both
  to the pair of both, together with what the call returned or raised. Attribute
  assignments and register writes made before an exception survive it, as in Python.

  Python's unbounded \<open>int\<close> is \<open>int\<close>. Python's \<open>float\<close> is \<open>rat\<close>: arithmetic is exact
  here, so rounding, overflow, infinities and NaN of IEEE doubles are outside the model.
\<close>

subsection \<open>Exceptions\<close>

datatype error =
    Exception string
  | ZeroDivisionError
  | ValueError
  | TypeError
  | KeyError string

subsection \<open>The device behind the handle\<close>

text \<open>
  \<open>ljm.eWriteName(handle, name, value)\<close> and \<open>ljm.eReadName(handle, name)\<close> are the only
  two calls the class makes on the device. The model keeps the writes in the order they
  were issued. What a read returns is left to the device: \<open>respond\<close> gives the value of
  a register after a history of writes, which covers a plain register file as well as an
  input line whose level follows the commanded motion. Reads do not change the device.
  Every register read by the class holds an integer, so \<open>int(ljm.eReadName(...))\<close> is the
  value itself. A failure of the connection (an \<open>LJMError\<close>) is not modelled.
\<close>

record device =
  writes :: "(string \<times> int) list"
  respond :: "(string \<times> int) list \<Rightarrow> string \<Rightarrow> int"

definition eReadName :: "device \<Rightarrow> string \<Rightarrow> int" where
  "eReadName d name = respond d (writes d) name"

definition eWriteName :: "device \<Rightarrow> string \<Rightarrow> int \<Rightarrow> device" where
  "eWriteName d name v = d\<lparr>writes := writes d @ [(name, v)]\<rparr>"

subsection \<open>The attributes of a Motor\<close>

record motor =
  invert :: bool
  dir_pin :: int
  dir_reg :: string
  pulse_pin :: int
  pulse_reg :: string
  home_pin :: int
  home_reg :: string
  counts :: int
  cal_zero :: rat
  cal_slope :: rat
  cal_units :: string
  lim_upper :: "int option"
  lim_lower :: "int option"

type_synonym world = "motor \<times> device"

text \<open>\<open>Motor.__init__\<close>\<close>

definition Motor_init :: motor where
  "Motor_init =
     \<lparr>invert = False, dir_pin = - 1, dir_reg = [], pulse_pin = - 1, pulse_reg = [],
      home_pin = - 1, home_reg = [], counts = 0, cal_zero = 0, cal_slope = 1,
      cal_units = ''counts'', lim_upper = None, lim_lower = None\<rparr>"

subsection \<open>Built-ins\<close>

text \<open>\<open>int(x)\<close> on a float truncates toward zero; on an int it is the identity.\<close>

definition py_int :: "rat \<Rightarrow> int" where
  "py_int q = (if 0 \<le> q then \<lfloor>q\<rfloor> else \<lceil>q\<rceil>)"

text \<open>\<open>time.sleep(t)\<close> raises \<open>ValueError\<close> for a negative length; the wait itself
  leaves no trace in the model.\<close>

definition sleep :: "rat \<Rightarrow> error + unit" where
  "sleep t = (if t < 0 then Inl ValueError else Inr ())"

subsection \<open>The clock\<close>

text \<open>\<open>Motor.get_clock\<close>: the divisor is read first, then the roll value.\<close>

definition get_clock :: "device \<Rightarrow> int \<times> int" where
  "get_clock d =
     (let divisor = eReadName d ''DIO_EF_CLOCK0_DIVISOR'';
          roll = eReadName d ''DIO_EF_CLOCK0_ROLL_VALUE''
      in (roll, divisor))"

text \<open>\<open>Motor.get_clock_hz\<close>: \<open>80e6 / divisor / roll\<close>, each division raising on zero.\<close>

definition get_clock_hz :: "device \<Rightarrow> error + rat" where
  "get_clock_hz d =
     (let (roll, divisor) = get_clock d
      in if divisor = 0 then Inl ZeroDivisionError
         else if roll = 0 then Inl ZeroDivisionError
         else Inr (80000000 / of_int divisor / of_int roll))"

subsection \<open>Relative motion\<close>

text \<open>
  \<open>Motor.increment(value, block)\<close>. The limit is applied to the truncated value, the
  direction line and the pulse count are written, and \<open>counts\<close> is updated before the
  optional wait, whose length is computed from the clock registers.
\<close>

definition increment :: "rat \<Rightarrow> bool \<Rightarrow> world \<Rightarrow> (error + unit) \<times> world" where
  "increment val block w =
     (let (m, d) = w;
          v0 = py_int val;
          direction = (0 < v0);
          v = (if direction
               then (case lim_upper m of
                       Some u \<Rightarrow> min v0 (u - counts m)
                     | None \<Rightarrow> v0)
               else (case lim_lower m of
                       Some l \<Rightarrow> max v0 (l - counts m)
                     | None \<Rightarrow> v0));
          direction' = (if invert m then \<not> direction else direction);
          d1 = eWriteName d (dir_reg m) (if direction' then 1 else 0);
          d2 = eWriteName d1 (pulse_reg m) \<bar>v\<bar>;
          m' = m\<lparr>counts := counts m + v\<rparr>
      in if block
         then (case get_clock_hz d2 of
                 Inl e \<Rightarrow> (Inl e, (m', d2))
               | Inr hz \<Rightarrow> (sleep (of_int \<bar>v\<bar> / hz), (m', d2)))
         else (Inr (), (m', d2)))"

text \<open>\<open>Motor.increment_cal\<close>: the float division raises on a zero slope.\<close>

definition increment_cal :: "rat \<Rightarrow> bool \<Rightarrow> world \<Rightarrow> (error + unit) \<times> world" where
  "increment_cal val block w =
     (let (m, d) = w
      in if cal_slope m = 0 then (Inl ZeroDivisionError, w)
         else increment (val / cal_slope m) block w)"

subsection \<open>Absolute motion and calibration\<close>

text \<open>\<open>Motor.go\<close>\<close>

definition go :: "rat \<Rightarrow> bool \<Rightarrow> world \<Rightarrow> (error + unit) \<times> world" where
  "go target block w = (let (m, d) = w in increment (target - of_int (counts m)) block w)"

text \<open>\<open>Motor.go_cal\<close>: the target in counts is \<open>target / cal_slope + cal_zero\<close>.\<close>

definition go_cal :: "rat \<Rightarrow> world \<Rightarrow> (error + unit) \<times> world" where
  "go_cal target w =
     (let (m, d) = w
      in if cal_slope m = 0 then (Inl ZeroDivisionError, w)
         else go (target / cal_slope m + cal_zero m) False w)"

text \<open>\<open>Motor.get_cal\<close>\<close>

definition get_cal :: "motor \<Rightarrow> rat" where
  "get_cal m = cal_slope m * (of_int (counts m) - cal_zero m)"

text \<open>\<open>Motor.set_cal\<close>\<close>

definition set_cal :: "rat \<Rightarrow> rat \<Rightarrow> string \<Rightarrow> motor \<Rightarrow> (error + unit) \<times> motor" where
  "set_cal zero slope units m =
     (if slope \<le> 0
      then (Inl (Exception ''The slope MUST be a positive (non-zero) number.''), m)
      else (Inr (), m\<lparr>cal_zero := zero, cal_slope := slope, cal_units := units\<rparr>))"

subsection \<open>Homing\<close>

text \<open>
  \<open>Motor.home(increment, max_tries)\<close>. The \<open>for\<close> loop over \<open>range(max_tries)\<close> is a
  recursion on the number of tries left; a negative \<open>max_tries\<close> gives an empty range.
  An exception of the blocking move leaves the loop with the state reached so far.
\<close>

fun home_loop :: "nat \<Rightarrow> rat \<Rightarrow> int \<Rightarrow> world \<Rightarrow> (error + bool) \<times> world" where
  "home_loop 0 inc initial w = (Inr False, w)"
| "home_loop (Suc n) inc initial w =
     (case increment inc True w of
        (Inl e, w') \<Rightarrow> (Inl e, w')
      | (Inr u, w') \<Rightarrow>
          if eReadName (snd w') (home_reg (fst w')) \<noteq> initial then (Inr True, w')
          else home_loop n inc initial w')"

definition home :: "rat \<Rightarrow> int \<Rightarrow> world \<Rightarrow> (error + bool) \<times> world" where
  "home inc max_tries w =
     (let (m, d) = w
      in if home_reg m = [] then (Inl (Exception ''The home channel was not configured.''), w)
         else let initial = eReadName d (home_reg m)
              in home_loop (nat max_tries) inc initial w)"

subsection \<open>Setting the clock\<close>

text \<open>
  \<open>Motor.set_clock(roll, divisor)\<close>: four writes, in this order. The arguments are
  integers here, on which the coercion \<open>int(...)\<close> is the identity. The method touches
  the device only.
\<close>

definition set_clock :: "int \<Rightarrow> int \<Rightarrow> device \<Rightarrow> device" where
  "set_clock roll divisor d =
     (let d1 = eWriteName d ''DIO_EF_CLOCK0_ENABLE'' 0;
          d2 = eWriteName d1 ''DIO_EF_CLOCK0_ROLL_VALUE'' roll;
          d3 = eWriteName d2 ''DIO_EF_CLOCK0_DIVISOR'' divisor
      in eWriteName d3 ''DIO_EF_CLOCK0_ENABLE'' 1)"

text \<open>
  The \<open>while\<close> loop of \<open>Motor.set_clock_hz\<close>: \<open>roll >>= 1; divisor <<= 1\<close> as long as
  \<open>roll > 0xFFFFFFFF\<close>.
\<close>

function clock_loop :: "int \<Rightarrow> int \<Rightarrow> int \<times> int" where
  "clock_loop roll divisor =
     (if 4294967295 < roll then clock_loop (drop_bit 1 roll) (push_bit 1 divisor)
      else (roll, divisor))"
  by pat_completeness auto
termination
  by (relation "measure (\<lambda>(roll, divisor). nat roll)") (auto simp: drop_bit_eq_div)

declare clock_loop.simps [simp del]

text \<open>\<open>Motor.set_clock_hz(rate)\<close>: \<open>80e6 / abs(rate)\<close> raises when \<open>rate\<close> is zero,
  before anything is written.\<close>

definition set_clock_hz :: "rat \<Rightarrow> device \<Rightarrow> (error + unit) \<times> device" where
  "set_clock_hz rate d =
     (if \<bar>rate\<bar> = 0 then (Inl ZeroDivisionError, d)
      else let (roll, divisor) = clock_loop (py_int (80000000 / \<bar>rate\<bar>)) 1
           in (Inr (), set_clock roll divisor d))"

subsection \<open>Binding the pins\<close>

text \<open>\<open>str(n)\<close> for an integer, as the f-strings \<open>f'DIO{pin}'\<close> format it.\<close>

fun str_nat :: "nat \<Rightarrow> string" where
  "str_nat n =
     (if n < 10 then [''0123456789'' ! n]
      else str_nat (n div 10) @ [''0123456789'' ! (n mod 10)])"

declare str_nat.simps [simp del]

definition str_int :: "int \<Rightarrow> string" where
  "str_int i = (if i < 0 then CHR ''-'' # str_nat (nat (- i)) else str_nat (nat i))"

definition write_all :: "device \<Rightarrow> (string \<times> int) list \<Rightarrow> device" where
  "write_all d xs = foldl (\<lambda>d' (name, v). eWriteName d' name v) d xs"

text \<open>
  \<open>Motor.set_pins(dir_pin, pulse_pin, home_pin, invert)\<close>. The pin numbers are integers
  here. The attributes of the direction and pulse pins and \<open>invert\<close> are assigned first;
  \<open>1 << pin\<close> raises \<open>ValueError\<close> for a negative pin, the pulse pin being shifted before
  the direction pin; a negative \<open>home_pin\<close> means that no home pin is configured. The
  twelve writes follow the reads of the direction mask and of the clock.
\<close>

definition set_pins :: "int \<Rightarrow> int \<Rightarrow> int \<Rightarrow> bool \<Rightarrow> world \<Rightarrow> (error + unit) \<times> world" where
  "set_pins dir_pin' pulse_pin' home_pin' invert' w =
     (let (m, d) = w;
          p = ''DIO'' @ str_int pulse_pin';
          m1 = m\<lparr>dir_pin := dir_pin', dir_reg := ''DIO'' @ str_int dir_pin',
                 pulse_pin := pulse_pin', pulse_reg := p @ ''_EF_CONFIG_C'',
                 invert := invert'\<rparr>;
          iomask = eReadName d ''DIO_DIRECTION''
      in if pulse_pin' < 0 then (Inl ValueError, (m1, d))
         else if dir_pin' < 0 then (Inl ValueError, (m1, d))
         else
           let iomask1 = or (or iomask (push_bit (nat pulse_pin') 1)) (push_bit (nat dir_pin') 1);
               m2 = (if 0 \<le> home_pin'
                     then m1\<lparr>home_pin := home_pin', home_reg := ''DIO'' @ str_int home_pin'\<rparr>
                     else m1\<lparr>home_pin := - 1, home_reg := []\<rparr>);
               iomask2 = (if 0 \<le> home_pin'
                          then and iomask1 (xor 4294967295 (push_bit (nat home_pin') 1))
                          else iomask1);
               (roll, divisor) = get_clock d
           in (Inr (),
               (m2,
                write_all d
                  [(''DIO_ANALOG_ENABLE'', 15),
                   (''DIO_DIRECTION'', iomask2),
                   (dir_reg m2, 0),
                   (p @ ''_EF_ENABLE'', 0),
                   (p @ ''_EF_INDEX'', 2),
                   (p @ ''_EF_CONFIG_B'', 0),
                   (p @ ''_EF_CONFIG_A'', roll div 2),
                   (p @ ''_EF_CONFIG_C'', 1),
                   (p, 0),
                   (p @ ''_EF_ENABLE'', 1),
                   (dir_reg m2, 1),
                   (pulse_reg m2, 1)])))"

subsection \<open>Saving and loading the configuration\<close>

text \<open>
  The dictionary that \<open>save\<close> builds and that \<open>json.load\<close> hands to \<open>load\<close>. Each of the
  eleven parameters the class knows is an optional field holding a value of the type of
  its attribute (\<open>None\<close>: the key is absent; a limit that is present may be \<open>null\<close>);
  \<open>c_other\<close> lists the remaining keys of the dictionary, whose values are never read.
\<close>

record config =
  c_clock_roll :: "int option"
  c_clock_divisor :: "int option"
  c_dir_pin :: "int option"
  c_pulse_pin :: "int option"
  c_home_pin :: "int option"
  c_invert :: "bool option"
  c_cal_slope :: "rat option"
  c_cal_zero :: "rat option"
  c_cal_units :: "string option"
  c_lim_upper :: "int option option"
  c_lim_lower :: "int option option"
  c_other :: "string list"

definition key_if :: "'a option \<Rightarrow> string \<Rightarrow> string list" where
  "key_if v k = (case v of None \<Rightarrow> [] | Some x \<Rightarrow> [k])"

text \<open>\<open>config.keys()\<close>\<close>

definition keys :: "config \<Rightarrow> string list" where
  "keys c =
     key_if (c_clock_roll c) ''clock_roll'' @ key_if (c_clock_divisor c) ''clock_divisor'' @
     key_if (c_dir_pin c) ''dir_pin'' @ key_if (c_pulse_pin c) ''pulse_pin'' @
     key_if (c_home_pin c) ''home_pin'' @ key_if (c_invert c) ''invert'' @
     key_if (c_cal_slope c) ''cal_slope'' @ key_if (c_cal_zero c) ''cal_zero'' @
     key_if (c_cal_units c) ''cal_units'' @ key_if (c_lim_upper c) ''lim_upper'' @
     key_if (c_lim_lower c) ''lim_lower'' @ c_other c"

text \<open>The dictionary literal of \<open>Motor.save\<close>, from the clock read off the device.\<close>

definition save_config :: "world \<Rightarrow> config" where
  "save_config w =
     (let (m, d) = w; (roll, divisor) = get_clock d
      in \<lparr>c_clock_roll = Some roll, c_clock_divisor = Some divisor,
          c_dir_pin = Some (dir_pin m), c_pulse_pin = Some (pulse_pin m),
          c_home_pin = Some (home_pin m), c_invert = Some (invert m),
          c_cal_slope = Some (cal_slope m), c_cal_zero = Some (cal_zero m),
          c_cal_units = Some (cal_units m), c_lim_upper = Some (lim_upper m),
          c_lim_lower = Some (lim_lower m), c_other = []\<rparr>)"

text \<open>
  \<open>Motor.save(filename)\<close> opens the file for writing, builds the dictionary and calls
  \<open>json.dump(config, indent=4)\<close> without the file argument, which raises \<open>TypeError\<close>:
  the call writes nothing. The files are not part of the model.
\<close>

definition save :: "world \<Rightarrow> (error + unit) \<times> world" where
  "save w = (let config = save_config w in (Inl TypeError, w))"

text \<open>\<open>any(s)\<close> on a collection of strings: some element is a non-empty string.\<close>

definition py_any :: "string list \<Rightarrow> bool" where
  "py_any xs = list_ex (\<lambda>x. x \<noteq> []) xs"

definition mandatory :: "string list" where
  "mandatory = [''clock_roll'', ''clock_divisor'', ''dir_pin'', ''pulse_pin'']"

definition allowed :: "string list" where
  "allowed =
     [''home_pin'', ''cal_slope'', ''cal_zero'', ''cal_units'', ''lim_upper'', ''lim_lower'',
      ''invert''] @ mandatory"

text \<open>The optional parameters of \<open>Motor.load\<close>, applied after the pins are set.\<close>

definition load_optional :: "config \<Rightarrow> motor \<Rightarrow> motor" where
  "load_optional c m =
     (let m1 = (case c_invert c of Some b \<Rightarrow> m\<lparr>invert := b\<rparr> | None \<Rightarrow> m);
          m2 = (case c_cal_slope c of Some s \<Rightarrow> m1\<lparr>cal_slope := s\<rparr> | None \<Rightarrow> m1);
          m3 = (case c_cal_zero c of Some z \<Rightarrow> m2\<lparr>cal_zero := z\<rparr> | None \<Rightarrow> m2);
          m4 = (case c_cal_units c of Some u \<Rightarrow> m3\<lparr>cal_units := u\<rparr> | None \<Rightarrow> m3);
          m5 = (case c_lim_upper c of Some l \<Rightarrow> m4\<lparr>lim_upper := l\<rparr> | None \<Rightarrow> m4)
      in (case c_lim_lower c of Some l \<Rightarrow> m5\<lparr>lim_lower := l\<rparr> | None \<Rightarrow> m5))"

text \<open>
  \<open>Motor.load(filename)\<close>, from the dictionary that \<open>json.load\<close> returned. The two sets
  \<open>missing\<close> and \<open>illegal\<close> are lists here, and the text of the exceptions stops before
  the \<open>repr\<close> of the set. The clock is set twice, as in the source. A subscript
  \<open>config[key]\<close> on an absent key raises \<open>KeyError\<close>.
\<close>

definition load :: "config \<Rightarrow> world \<Rightarrow> (error + unit) \<times> world" where
  "load c w =
     (let (m, d) = w;
          has = keys c;
          missing = filter (\<lambda>k. k \<notin> set has) mandatory;
          illegal = filter (\<lambda>k. k \<notin> set allowed) has
      in if py_any missing then (Inl (Exception ''Missing mandatory parameters: ''), w)
         else if py_any illegal
         then (Inl (Exception ''Illegal configuration parameters: ''), w)
         else
           (case c_clock_roll c of
              None \<Rightarrow> (Inl (KeyError ''clock_roll''), w)
            | Some roll \<Rightarrow>
           (case c_clock_divisor c of
              None \<Rightarrow> (Inl (KeyError ''clock_divisor''), w)
            | Some divisor \<Rightarrow>
                let d1 = set_clock roll divisor d in
           (case c_dir_pin c of
              None \<Rightarrow> (Inl (KeyError ''dir_pin''), (m, d1))
            | Some dir_pin' \<Rightarrow>
           (case c_pulse_pin c of
              None \<Rightarrow> (Inl (KeyError ''pulse_pin''), (m, d1))
            | Some pulse_pin' \<Rightarrow>
                let home_pin' = (case c_home_pin c of Some h \<Rightarrow> h | None \<Rightarrow> - 1);
                    d2 = set_clock roll divisor d1
                in (case set_pins dir_pin' pulse_pin' home_pin' False (m, d2) of
                      (Inl e, w') \<Rightarrow> (Inl e, w')
                    | (Inr u, (m', d')) \<Rightarrow> (Inr (), (load_optional c m', d'))))))))"

subsection \<open>Homing as the specification words it\<close>

text \<open>
  The specification describes \<open>home\<close> by what the home pin reads after each blocking
  move. \<open>moves k\<close> is the state after \<open>k\<close> blocking moves of \<open>inc\<close> counts, \<open>level k\<close>
  the home pin read there, \<open>first_change\<close> the first of the moves \<open>1, \<dots>, max_tries\<close>
  after which the level differs from the initial one, and \<open>home_spec\<close> the answer and
  the final state the specification promises. \<open>clock_ok\<close> says that the two clock
  registers read positive, which the wait of a blocking move needs.
\<close>

fun moves :: "nat \<Rightarrow> rat \<Rightarrow> world \<Rightarrow> world" where
  "moves 0 inc w = w"
| "moves (Suc k) inc w = moves k inc (snd (increment inc True w))"

definition level :: "nat \<Rightarrow> rat \<Rightarrow> world \<Rightarrow> int" where
  "level k inc w = eReadName (snd (moves k inc w)) (home_reg (fst w))"

definition clock_ok :: "device \<Rightarrow> bool" where
  "clock_ok d = (let (roll, divisor) = get_clock d in 0 < roll \<and> 0 < divisor)"

definition first_change :: "rat \<Rightarrow> int \<Rightarrow> world \<Rightarrow> nat option" where
  "first_change inc max_tries w =
     find (\<lambda>k. level k inc w \<noteq> level 0 inc w) [Suc 0..<Suc (nat max_tries)]"

definition tries_used :: "rat \<Rightarrow> int \<Rightarrow> world \<Rightarrow> nat" where
  "tries_used inc max_tries w =
     (case first_change inc max_tries w of Some k \<Rightarrow> k | None \<Rightarrow> nat max_tries)"

definition home_spec :: "rat \<Rightarrow> int \<Rightarrow> world \<Rightarrow> (error + bool) \<times> world" where
  "home_spec inc max_tries w =
     (case first_change inc max_tries w of
        Some k \<Rightarrow> (Inr True, moves k inc w)
      | None \<Rightarrow> (Inr False, moves (nat max_tries) inc w))"

subsection \<open>A bench set-up for the concrete runs\<close>

text \<open>
  A simulated device: every register reads back the last value written to it, the clock
  is programmed to 1 kHz at power-up (roll 80000, divisor 1), and the home switch on
  \<open>DIO8\<close> reads 1 once \<open>flip\<close> pulse commands have been sent to the pulse pin \<open>DIO6\<close>.
  \<open>bench_motor\<close> is a motor bound to pins 4, 6 and 8, the polarizer of \<open>global_init\<close>.
\<close>

definition last_write :: "(string \<times> int) list \<Rightarrow> string \<Rightarrow> int" where
  "last_write ws name =
     (case find (\<lambda>(r, v). r = name) (rev ws) of Some (r, v) \<Rightarrow> v | None \<Rightarrow> 0)"

definition bench :: "nat \<Rightarrow> device" where
  "bench flip =
     \<lparr>writes = [],
      respond = (\<lambda>ws name.
        if name = ''DIO8''
        then (if flip \<le> length (filter (\<lambda>(r, v). r = ''DIO6_EF_CONFIG_C'') ws) then 1 else 0)
        else last_write
               ([(''DIO_EF_CLOCK0_ROLL_VALUE'', 80000), (''DIO_EF_CLOCK0_DIVISOR'', 1)] @ ws)
               name)\<rparr>"

definition bench_motor :: motor where
  "bench_motor =
     Motor_init\<lparr>dir_pin := 4, dir_reg := ''DIO4'', pulse_pin := 6,
                pulse_reg := ''DIO6_EF_CONFIG_C'', home_pin := 8, home_reg := ''DIO8''\<rparr>"

text \<open>The smallest configuration that \<open>load\<close> accepts: the four mandatory parameters.\<close>

definition cfg_min :: config where
  "cfg_min =
     \<lparr>c_clock_roll = Some 80000, c_clock_divisor = Some 1, c_dir_pin = Some 4,
      c_pulse_pin = Some 6, c_home_pin = None, c_invert = None, c_cal_slope = None,
      c_cal_zero = None, c_cal_units = None, c_lim_upper = None, c_lim_lower = None,
      c_other = []\<rparr>"

section \<open>Properties\<close>

subsection \<open>Software limits\<close>

lemma py_int_of_int: "py_int (of_int n) = n"
  by (simp add: py_int_def)

lemma increment_motor:
  "fst (snd (increment (of_int n) block (m, d))) =
     m\<lparr>counts := counts m +
         (if 0 < n
          then (case lim_upper m of Some u \<Rightarrow> min n (u - counts m) | None \<Rightarrow> n)
          else (case lim_lower m of Some l \<Rightarrow> max n (l - counts m) | None \<Rightarrow> n))\<rparr>"
  by (simp add: increment_def py_int_of_int Let_def split: sum.splits option.splits)

text \<open>
  Claim C1. A relative move never takes the position strictly beyond the limit on the
  side it moves to. For a positive move \<open>p\<close> with \<open>lim_upper\<close> set to \<open>u\<close>, the applied
  delta is \<open>min p (u - counts)\<close> and the new \<open>counts\<close> is at most \<open>u\<close>; for a move
  \<open>n \<le> 0\<close> with \<open>lim_lower\<close> set to \<open>l\<close>, the applied delta is \<open>max n (l - counts)\<close> and
  the new \<open>counts\<close> is at least \<open>l\<close>; with the limit of that side unset the whole delta
  is applied. This holds with and without \<open>block\<close>, since \<open>counts\<close> is updated before
  the wait.
\<close>

theorem increment_clamps:
  fixes p n :: int
  assumes "0 < p" and "n \<le> 0"
  shows "(case lim_upper m of
            Some u \<Rightarrow>
              counts (fst (snd (increment (of_int p) block (m, d)))) =
                counts m + min p (u - counts m)
              \<and> counts (fst (snd (increment (of_int p) block (m, d)))) \<le> u
          | None \<Rightarrow> counts (fst (snd (increment (of_int p) block (m, d)))) = counts m + p)
       \<and> (case lim_lower m of
            Some l \<Rightarrow>
              counts (fst (snd (increment (of_int n) block (m, d)))) =
                counts m + max n (l - counts m)
              \<and> l \<le> counts (fst (snd (increment (of_int n) block (m, d))))
          | None \<Rightarrow> counts (fst (snd (increment (of_int n) block (m, d)))) = counts m + n)"
  using assms by (auto simp add: increment_motor split: option.splits)

theorem increment_clamps_witness:
  "counts (fst (snd (increment 50 False
      (Motor_init\<lparr>counts := 90, lim_upper := Some 100, lim_lower := Some 0\<rparr>, bench 0)))) = 100
   \<and> counts (fst (snd (increment (- 200) False
      (Motor_init\<lparr>counts := 90, lim_upper := Some 100, lim_lower := Some 0\<rparr>, bench 0)))) = 0"
  using increment_clamps [where p = 50 and n = "- 200" and block = False and d = "bench 0"
      and m = "Motor_init\<lparr>counts := 90, lim_upper := Some 100, lim_lower := Some 0\<rparr>"]
  by (simp add: Motor_init_def)

text \<open>
  Claim C10. A move of zero counts takes the branch of the lower limit: the direction
  is the negative one (the direction line is written 0, or 1 when \<open>invert\<close> is set). With
  \<open>lim_lower\<close> set to \<open>l\<close> and \<open>counts < l\<close>, the pulse command is \<open>l - counts\<close> and
  \<open>counts\<close> becomes \<open>l\<close>; with \<open>lim_lower\<close> unset or \<open>l \<le> counts\<close>, the pulse command is
  0 and \<open>counts\<close> is unchanged.
\<close>

theorem increment_zero:
  "counts (fst (snd (increment 0 block (m, d)))) =
     (case lim_lower m of
        None \<Rightarrow> counts m
      | Some l \<Rightarrow> if counts m < l then l else counts m)
   \<and> writes (snd (snd (increment 0 block (m, d)))) =
       writes d @
       [(dir_reg m, if invert m then 1 else 0),
        (pulse_reg m,
         case lim_lower m of
           None \<Rightarrow> 0
         | Some l \<Rightarrow> if counts m < l then l - counts m else 0)]"
  by (auto simp add: increment_def py_int_def Let_def eWriteName_def max_def
      split: sum.splits option.splits)

theorem increment_zero_witness:
  "counts (fst (snd (increment 0 False (bench_motor\<lparr>counts := - 7, lim_lower := Some 3\<rparr>, bench 0)))) = 3
   \<and> writes (snd (snd (increment 0 False (bench_motor\<lparr>counts := - 7, lim_lower := Some 3\<rparr>, bench 0)))) =
       [(''DIO4'', 0), (''DIO6_EF_CONFIG_C'', 10)]"
  using increment_zero [of False "bench_motor\<lparr>counts := - 7, lim_lower := Some 3\<rparr>" "bench 0"]
  by (simp add: bench_motor_def Motor_init_def bench_def)

subsection \<open>Homing\<close>

text \<open>
  Claim C3. Without a home pin (\<open>home_reg\<close> is the empty string, as \<open>__init__\<close> and
  \<open>set_pins\<close> with a negative \<open>home_pin\<close> leave it), \<open>home\<close> raises the exception
  "The home channel was not configured." at once: the motor, \<open>counts\<close> included, and
  the device, its list of writes included, are what they were before the call.
\<close>

theorem home_unconfigured:
  "home_reg m = [] \<Longrightarrow>
     home inc max_tries (m, d) =
       (Inl (Exception ''The home channel was not configured.''), (m, d))"
  by (simp add: home_def)

theorem home_unconfigured_witness:
  "home 5 10 (Motor_init, bench 0) =
     (Inl (Exception ''The home channel was not configured.''), (Motor_init, bench 0))"
  using home_unconfigured [of Motor_init 5 10 "bench 0"]
  by (simp add: Motor_init_def)

lemma increment_home_reg: "home_reg (fst (snd (increment inc b w))) = home_reg (fst w)"
  by (cases w) (simp add: increment_def Let_def split: sum.splits option.splits)

lemma get_clock_hz_ok:
  assumes "clock_ok d"
  shows "\<exists>hz. get_clock_hz d = Inr hz \<and> 0 < hz"
proof -
  obtain roll divisor where g: "get_clock d = (roll, divisor)"
    by (cases "get_clock d")
  with assms have "0 < roll" "0 < divisor"
    by (simp_all add: clock_ok_def)
  with g show ?thesis
    by (simp add: get_clock_hz_def)
qed

lemma increment_block_ok:
  assumes "clock_ok (snd (snd (increment inc True w)))"
  shows "fst (increment inc True w) = Inr ()"
proof -
  obtain m d where w: "w = (m, d)"
    by (cases w)
  from assms obtain hz
    where hz: "get_clock_hz (snd (snd (increment inc True w))) = Inr hz" "0 < hz"
    using get_clock_hz_ok by blast
  have d2: "snd (snd (increment inc True w)) = snd (snd (increment inc False w))"
    unfolding w by (simp add: increment_def Let_def split: sum.splits)
  show ?thesis
    using hz unfolding d2 unfolding w
    by (simp add: increment_def Let_def sleep_def not_less zero_le_divide_iff)
qed

lemma find_map_shift: "find P (map f xs) = map_option f (find (\<lambda>x. P (f x)) xs)"
  by (induction xs) simp_all

lemma find_upt_shift:
  "find P [Suc 0..<Suc (Suc n)] =
     (if P (Suc 0) then Some (Suc 0)
      else map_option Suc (find (\<lambda>k. P (Suc k)) [Suc 0..<Suc n]))"
proof -
  have "[Suc 0..<Suc (Suc n)] = Suc 0 # map Suc [Suc 0..<Suc n]"
    unfolding map_Suc_upt by (simp add: upt_conv_Cons del: upt_Suc)
  then show ?thesis
    by (simp add: find_map_shift del: upt_Suc)
qed

lemma find_upt_bounds: "find P [a..<b] = Some k \<Longrightarrow> a \<le> k \<and> k < b"
  by (auto simp: find_Some_iff)

lemma home_loop_step:
  "increment inc True w = (Inr (), w1) \<Longrightarrow>
   home_loop (Suc n) inc initial w =
     (if eReadName (snd w1) (home_reg (fst w1)) \<noteq> initial then (Inr True, w1)
      else home_loop n inc initial w1)"
  by simp

lemma home_loop_spec:
  "list_all (\<lambda>j. clock_ok (snd (moves j inc w)))
      [Suc 0..<Suc (case find
                           (\<lambda>k. eReadName (snd (moves k inc w)) (home_reg (fst w)) \<noteq> initial)
                           [Suc 0..<Suc n] of
                      Some k \<Rightarrow> k
                    | None \<Rightarrow> n)] \<Longrightarrow>
   home_loop n inc initial w =
     (case find
             (\<lambda>k. eReadName (snd (moves k inc w)) (home_reg (fst w)) \<noteq> initial)
             [Suc 0..<Suc n] of
        Some k \<Rightarrow> (Inr True, moves k inc w)
      | None \<Rightarrow> (Inr False, moves n inc w))"
proof (induction n arbitrary: w)
  case 0
  then show ?case by simp
next
  case (Suc n)
  define w1 where "w1 = snd (increment inc True w)"
  let ?P = "\<lambda>k. eReadName (snd (moves k inc w)) (home_reg (fst w)) \<noteq> initial"
  let ?P1 = "\<lambda>k. eReadName (snd (moves k inc w1)) (home_reg (fst w1)) \<noteq> initial"
  define K
    where "K = (case find ?P [Suc 0..<Suc (Suc n)] of Some k \<Rightarrow> k | None \<Rightarrow> Suc n)"
  define K1 where "K1 = (case find ?P1 [Suc 0..<Suc n] of Some k \<Rightarrow> k | None \<Rightarrow> n)"
  have P1: "?P (Suc k) = ?P1 k" for k
    by (simp add: increment_home_reg w1_def)
  have K_pos: "Suc 0 \<le> K"
  proof (cases "find ?P [Suc 0..<Suc (Suc n)]")
    case None
    then show ?thesis by (simp add: K_def del: upt_Suc)
  next
    case (Some k)
    from find_upt_bounds [OF Some] Some show ?thesis by (simp add: K_def del: upt_Suc)
  qed
  have all: "list_all (\<lambda>j. clock_ok (snd (moves j inc w))) [Suc 0..<Suc K]"
    unfolding K_def by (rule Suc.prems)
  from all have allK: "\<forall>j\<in>{Suc 0..<Suc K}. clock_ok (snd (moves j inc w))"
    by (simp only: list_all_iff set_upt)
  moreover from K_pos have "Suc 0 \<in> {Suc 0..<Suc K}"
    by simp
  ultimately have "clock_ok (snd (moves (Suc 0) inc w))"
    by blast
  then have ok: "fst (increment inc True w) = Inr ()"
    by (simp add: increment_block_ok)
  then have inc_eq: "increment inc True w = (Inr (), w1)"
    unfolding w1_def by (metis prod.collapse)
  note step = home_loop_step [OF inc_eq, of n initial]
  have shift: "find ?P [Suc 0..<Suc (Suc n)] =
      (if ?P1 0 then Some (Suc 0) else map_option Suc (find ?P1 [Suc 0..<Suc n]))"
    unfolding find_upt_shift P1 ..
  show ?case
  proof (cases "?P1 0")
    case True
    then show ?thesis
      unfolding step shift by (simp add: w1_def)
  next
    case False
    have Keq: "K = Suc K1"
      using False unfolding K_def K1_def shift
      by (simp split: option.splits)
    have "clock_ok (snd (moves j inc w1))" if "j \<in> {Suc 0..<Suc K1}" for j
    proof -
      from that have "Suc j \<in> {Suc 0..<Suc K}"
        unfolding Keq by simp
      with allK have "clock_ok (snd (moves (Suc j) inc w))"
        by blast
      then show ?thesis by (simp add: w1_def)
    qed
    then have "list_all (\<lambda>j. clock_ok (snd (moves j inc w1))) [Suc 0..<Suc K1]"
      by (simp only: list_all_iff set_upt) blast
    then have IH: "home_loop n inc initial w1 =
        (case find ?P1 [Suc 0..<Suc n] of Some k \<Rightarrow> (Inr True, moves k inc w1)
         | None \<Rightarrow> (Inr False, moves n inc w1))"
      unfolding K1_def by (rule Suc.IH)
    from False have F: "eReadName (snd w1) (home_reg (fst w1)) = initial"
      by simp
    have lhs: "home_loop (Suc n) inc initial w = home_loop n inc initial w1"
      unfolding step using F by simp
    show ?thesis
    proof (cases "find ?P1 [Suc 0..<Suc n]")
      case None
      have "find ?P [Suc 0..<Suc (Suc n)] = None"
        unfolding shift None using False by simp
      then show ?thesis
        unfolding lhs IH None by (simp add: w1_def)
    next
      case (Some k)
      have "find ?P [Suc 0..<Suc (Suc n)] = Some (Suc k)"
        unfolding shift Some using False by simp
      then show ?thesis
        unfolding lhs IH Some by (simp add: w1_def)
    qed
  qed
qed

text \<open>
  Claim C2. With a home pin bound, \<open>home\<close> reads the initial level and then moves by
  \<open>inc\<close> counts, blocking, and reads the home pin again, up to \<open>max_tries\<close> times. It
  returns \<open>True\<close> in the state reached by the first move after which the level differs
  from the initial one, and \<open>False\<close> in the state after \<open>max_tries\<close> moves when there is
  no such move: it is \<open>home_spec\<close>. The clock registers have to read positive after
  each of the moves made, otherwise the wait of the blocking move raises.
\<close>

theorem home_refines:
  assumes "home_reg m \<noteq> []"
    and "list_all (\<lambda>j. clock_ok (snd (moves j inc (m, d))))
           [Suc 0..<Suc (tries_used inc max_tries (m, d))]"
  shows "home inc max_tries (m, d) = home_spec inc max_tries (m, d)"
  using assms
    home_loop_spec [where inc = inc and w = "(m, d)" and n = "nat max_tries"
      and initial = "eReadName d (home_reg m)"]
  by (simp add: home_def home_spec_def tries_used_def first_change_def level_def)

theorem home_refines_witness:
  "fst (home 5 10 (bench_motor, bench 3)) = Inr True
   \<and> counts (fst (snd (home 5 10 (bench_motor, bench 3)))) = 15
   \<and> writes (snd (snd (home 5 10 (bench_motor, bench 3)))) =
       [(''DIO4'', 1), (''DIO6_EF_CONFIG_C'', 5), (''DIO4'', 1), (''DIO6_EF_CONFIG_C'', 5),
        (''DIO4'', 1), (''DIO6_EF_CONFIG_C'', 5)]"
proof -
  have bound: "home_reg bench_motor \<noteq> []"
    by (simp add: bench_motor_def)
  have clock: "list_all (\<lambda>j. clock_ok (snd (moves j 5 (bench_motor, bench 3))))
     [Suc 0..<Suc (tries_used 5 10 (bench_motor, bench 3))]"
    by code_simp
  have spec: "fst (home_spec 5 10 (bench_motor, bench 3)) = Inr True
    \<and> counts (fst (snd (home_spec 5 10 (bench_motor, bench 3)))) = 15
    \<and> writes (snd (snd (home_spec 5 10 (bench_motor, bench 3)))) =
        [(''DIO4'', 1), (''DIO6_EF_CONFIG_C'', 5), (''DIO4'', 1), (''DIO6_EF_CONFIG_C'', 5),
         (''DIO4'', 1), (''DIO6_EF_CONFIG_C'', 5)]"
    by code_simp
  show ?thesis
    unfolding home_refines [OF bound clock] by (rule spec)
qed

text \<open>A switch that does not trip within ten moves: \<open>home\<close> gives up after the tenth.\<close>

lemma home_exhausted_example:
  "fst (home 5 10 (bench_motor, bench 20)) = Inr False
   \<and> counts (fst (snd (home 5 10 (bench_motor, bench 20)))) = 50
   \<and> length (writes (snd (snd (home 5 10 (bench_motor, bench 20))))) = 20"
  by code_simp

text \<open>Without a running clock the first blocking move raises, after its two writes.\<close>

lemma home_clock_stopped_example:
  "fst (home 5 10 (bench_motor, set_clock 0 1 (bench 3))) = Inl ZeroDivisionError
   \<and> counts (fst (snd (home 5 10 (bench_motor, set_clock 0 1 (bench 3))))) = 5"
  by code_simp

subsection \<open>Calibration\<close>

text \<open>
  Claim C9. For a positive slope, converting the position in counts to calibrated units
  (\<open>get_cal\<close>: \<open>slope * (counts - zero)\<close>) and back (\<open>go_cal\<close>: \<open>value / slope + zero\<close>)
  gives the position in counts again, exactly, in rational arithmetic; so \<open>go_cal\<close> at
  the value of \<open>get_cal\<close> is \<open>go\<close> at the current \<open>counts\<close>.
\<close>

theorem cal_roundtrip:
  "0 < cal_slope m \<Longrightarrow>
     get_cal m / cal_slope m + cal_zero m = of_int (counts m)
   \<and> go_cal (get_cal m) (m, d) = go (of_int (counts m)) False (m, d)"
  by (simp add: get_cal_def go_cal_def)

theorem cal_roundtrip_witness:
  "get_cal (bench_motor\<lparr>counts := 100, cal_slope := 9 / 10\<rparr>) = 90
   \<and> 90 / (9 / 10) + 0 = (100 :: rat)
   \<and> go_cal 90 (bench_motor\<lparr>counts := 100, cal_slope := 9 / 10\<rparr>, bench 0) =
       go 100 False (bench_motor\<lparr>counts := 100, cal_slope := 9 / 10\<rparr>, bench 0)"
  using cal_roundtrip [of "bench_motor\<lparr>counts := 100, cal_slope := 9 / 10\<rparr>" "bench 0"]
  by (simp add: get_cal_def bench_motor_def Motor_init_def)

text \<open>A calibration installed by \<open>set_cal\<close> has a positive slope.\<close>

lemma set_cal_slope_positive:
  "set_cal zero slope units m = (Inr (), m') \<Longrightarrow> 0 < cal_slope m'"
  by (auto simp add: set_cal_def split: if_splits)

subsection \<open>The clock from a frequency\<close>






text \<open>One halving: 0.01 Hz asks for a roll value of 8000000000.\<close>

lemma set_clock_hz_example:
  "set_clock_hz (1 / 100) d = (Inr (), set_clock 4000000000 2 d)"
  by (simp add: set_clock_hz_def py_int_def clock_loop.simps drop_bit_eq_div push_bit_eq_mult)


lemma py_int_fraction: "0 \<le> q \<Longrightarrow> q < 1 \<Longrightarrow> py_int q = 0"
proof -
  assume q: "0 \<le> q" "q < 1"
  have "\<lfloor>q\<rfloor> = 0"
    by (rule floor_unique) (use q in simp_all)
  with q show ?thesis
    by (simp add: py_int_def)
qed

lemma set_clock_hz_above_base:
  assumes "80000000 < \<bar>rate\<bar>"
  shows "set_clock_hz rate d = (Inr (), set_clock 0 1 d)"
proof -
  from assms have "0 \<le> 80000000 / \<bar>rate\<bar>" and "80000000 / \<bar>rate\<bar> < 1"
    by simp_all
  then have "py_int (80000000 / \<bar>rate\<bar>) = 0"
    by (rule py_int_fraction)
  moreover from assms have "\<bar>rate\<bar> \<noteq> 0"
    by simp
  ultimately show ?thesis
    unfolding set_clock_hz_def by (simp add: clock_loop.simps)
qed

lemma writes_set_clock:
  "writes (set_clock roll divisor d) =
     writes d @
     [(''DIO_EF_CLOCK0_ENABLE'', 0), (''DIO_EF_CLOCK0_ROLL_VALUE'', roll),
      (''DIO_EF_CLOCK0_DIVISOR'', divisor), (''DIO_EF_CLOCK0_ENABLE'', 1)]"
  by (simp add: set_clock_def eWriteName_def)


text \<open>
  Claim C8, as the code has it. A rate of zero raises \<open>ZeroDivisionError\<close> in
  \<open>80e6 / abs(rate)\<close>, before any register is written. A rate above 80 MHz gives a roll
  value of 0, which raises nothing: the clock is programmed with roll 0 and divisor 1.
\<close>

theorem set_clock_hz_invalid:
  "set_clock_hz 0 d = (Inl ZeroDivisionError, d)
   \<and> (80000000 < \<bar>fast\<bar> \<longrightarrow> set_clock_hz fast d = (Inr (), set_clock 0 1 d))"
  by (simp add: set_clock_hz_above_base) (simp add: set_clock_hz_def)

theorem set_clock_hz_invalid_witness:
  "set_clock_hz 0 (bench 0) = (Inl ZeroDivisionError, bench 0)
   \<and> fst (set_clock_hz 1000000000 (bench 0)) = Inr ()
   \<and> writes (snd (set_clock_hz 1000000000 (bench 0))) =
       [(''DIO_EF_CLOCK0_ENABLE'', 0), (''DIO_EF_CLOCK0_ROLL_VALUE'', 0),
        (''DIO_EF_CLOCK0_DIVISOR'', 1), (''DIO_EF_CLOCK0_ENABLE'', 1)]"
  using set_clock_hz_invalid [of "bench 0" 1000000000]
  by (simp add: writes_set_clock) (simp add: bench_def)

text \<open>
  Claim C8 as stated fails for an over-large target: at 1 GHz the computed roll value
  is 0 and \<open>set_clock_hz\<close> returns normally after its four writes.
\<close>

theorem set_clock_hz_no_error_counterexample:
  "fst (set_clock_hz 1000000000 (bench 0)) = Inr ()
   \<and> writes (snd (set_clock_hz 1000000000 (bench 0))) =
       [(''DIO_EF_CLOCK0_ENABLE'', 0), (''DIO_EF_CLOCK0_ROLL_VALUE'', 0),
        (''DIO_EF_CLOCK0_DIVISOR'', 1), (''DIO_EF_CLOCK0_ENABLE'', 1)]"
proof -
  have "set_clock_hz 1000000000 (bench 0) = (Inr (), set_clock 0 1 (bench 0))"
    by (rule set_clock_hz_above_base) simp
  then show ?thesis
    by (simp add: writes_set_clock) (simp add: bench_def)
qed

subsection \<open>Binding the pins\<close>

lemma writes_write_all: "writes (write_all d xs) = writes d @ xs"
  unfolding write_all_def
  by (induction xs arbitrary: d) (simp_all add: eWriteName_def split: prod.splits)

text \<open>
  Claim C6, as the code has it. \<open>set_pins\<close> compares no pin with another. A negative
  direction or pulse pin raises \<open>ValueError\<close> in \<open>1 << pin\<close>, before any register is
  written; otherwise the call returns normally after its twelve writes, whether or not
  two pins are equal, and a negative \<open>home_pin\<close> leaves the motor without a home pin.
\<close>

theorem set_pins_checks:
  "fst (set_pins a b h iv (m, d)) = (if a < 0 \<or> b < 0 then Inl ValueError else Inr ())
   \<and> (if a < 0 \<or> b < 0
       then writes (snd (snd (set_pins a b h iv (m, d)))) = writes d
       else length (writes (snd (snd (set_pins a b h iv (m, d))))) = length (writes d) + 12
          \<and> home_reg (fst (snd (set_pins a b h iv (m, d)))) =
              (if 0 \<le> h then ''DIO'' @ str_int h else []))"
  by (simp add: set_pins_def Let_def writes_write_all split: prod.splits)

theorem set_pins_checks_witness:
  "fst (set_pins 4 6 8 False (Motor_init, bench 0)) = Inr ()
   \<and> length (writes (snd (snd (set_pins 4 6 8 False (Motor_init, bench 0))))) = 12
   \<and> home_reg (fst (snd (set_pins 4 6 8 False (Motor_init, bench 0)))) = ''DIO8''
   \<and> fst (set_pins (- 1) 6 8 False (Motor_init, bench 0)) = Inl ValueError
   \<and> writes (snd (snd (set_pins (- 1) 6 8 False (Motor_init, bench 0)))) = []"
  using set_pins_checks [of 4 6 8 False Motor_init "bench 0"]
    set_pins_checks [of "- 1" 6 8 False Motor_init "bench 0"]
  by (simp add: str_int_def str_nat.simps bench_def)

text \<open>
  Claim C6 as stated fails: the same pin for direction and pulse, a negative home pin,
  and a home pin equal to the direction pin are all accepted, and registers are written.
\<close>

theorem set_pins_same_pin_counterexample:
  "fst (set_pins 4 4 (- 1) False (Motor_init, bench 0)) = Inr ()
   \<and> length (writes (snd (snd (set_pins 4 4 (- 1) False (Motor_init, bench 0))))) = 12
   \<and> fst (set_pins 4 6 (- 3) False (Motor_init, bench 0)) = Inr ()
   \<and> fst (set_pins 4 6 4 False (Motor_init, bench 0)) = Inr ()"
  by (simp add: set_pins_def Let_def writes_write_all bench_def split: prod.splits)

subsection \<open>Saving and loading\<close>

text \<open>
  Claim C4, for the dictionary that \<open>save\<close> builds. Whatever the state of the motor, its
  keys are the four mandatory parameters and all seven optional ones, and no other: an
  optional parameter is in the dictionary also when it is not set (a limit that is unset
  is \<open>null\<close>, a home pin that is not bound is \<open>-1\<close>).
\<close>

theorem save_config_keys:
  "keys (save_config w) =
     [''clock_roll'', ''clock_divisor'', ''dir_pin'', ''pulse_pin'', ''home_pin'', ''invert'',
      ''cal_slope'', ''cal_zero'', ''cal_units'', ''lim_upper'', ''lim_lower'']"
  by (simp add: save_config_def keys_def key_if_def split: prod.splits)

text \<open>
  Claim C4 as stated fails on a new motor: no limit is set and no home pin is bound, yet
  \<open>lim_upper\<close>, \<open>lim_lower\<close> and \<open>home_pin\<close> are keys of the dictionary.
\<close>

theorem save_unset_written_counterexample:
  "lim_upper Motor_init = None \<and> lim_lower Motor_init = None \<and> home_reg Motor_init = []
   \<and> ''lim_upper'' \<in> set (keys (save_config (Motor_init, bench 0)))
   \<and> ''lim_lower'' \<in> set (keys (save_config (Motor_init, bench 0)))
   \<and> ''home_pin'' \<in> set (keys (save_config (Motor_init, bench 0)))"
  by (simp add: save_config_def keys_def key_if_def Motor_init_def split: prod.splits)

text \<open>The call of \<open>json.dump\<close> in \<open>save\<close> lacks its file argument: \<open>save\<close> always raises.\<close>

lemma save_raises: "save w = (Inl TypeError, w)"
  by (simp add: save_def)

text \<open>
  Claim C5 at a configuration with the four mandatory parameters and one more key, the
  empty string. The key is not among the allowed ones, but \<open>any(illegal)\<close> tests the
  truth of the keys themselves and the empty string is false: \<open>load\<close> raises nothing
  and configures the motor.
\<close>

theorem load_empty_key_accepted:
  "fst (load (cfg_min\<lparr>c_other := ['''']\<rparr>) (Motor_init, bench 0)) = Inr ()
   \<and> '''' \<notin> set allowed"
  by (simp add: load_def cfg_min_def keys_def key_if_def py_any_def mandatory_def allowed_def
      set_pins_def Let_def split: prod.splits)

text \<open>The two cases the claim names are rejected.\<close>

lemma load_missing_pulse_pin:
  "load (cfg_min\<lparr>c_pulse_pin := None\<rparr>) w = (Inl (Exception ''Missing mandatory parameters: ''), w)"
  by (simp add: load_def cfg_min_def keys_def key_if_def py_any_def mandatory_def allowed_def
      split: prod.splits)

lemma load_extra_foo:
  "load (cfg_min\<lparr>c_other := [''foo'']\<rparr>) w = (Inl (Exception ''Illegal configuration parameters: ''), w)"
  by (simp add: load_def cfg_min_def keys_def key_if_def py_any_def mandatory_def allowed_def
      split: prod.splits)


end
